theory Spec2Isabelle
  imports Main "HOL-Library.Word"
begin

section \<open>JavaScript values used by the frontend\<close>

text \<open>
  A JavaScript string is a sequence of UTF-16 code units; \<open>length\<close>, \<open>substring\<close>,
  \<open>trim\<close>, \<open>startsWith\<close> and the regular expressions of the source (none of which
  carries the \<open>u\<close> flag) all work on code units.  \<open>js\<close> embeds an ASCII literal.
\<close>

type_synonym code_unit = "16 word"
type_synonym jsstring = "code_unit list"

definition js :: "string \<Rightarrow> jsstring" where
  "js s = map of_char s"

definition PLUS :: code_unit where
  "PLUS = 0x2B"

text \<open>The character class \<open>\d\<close> (and \<open>[0-9]\<close>): the ASCII digits only.\<close>

definition isDigit :: "code_unit \<Rightarrow> bool" where
  "isDigit c \<longleftrightarrow> 0x30 \<le> c \<and> c \<le> 0x39"

text \<open>
  The code units removed by \<open>String.prototype.trim\<close>: ECMAScript WhiteSpace
  (TAB, VT, FF, SP, NBSP, ZWNBSP and the Unicode space separators) and LineTerminator
  (LF, CR, LS, PS).
\<close>

definition isWhiteSpace :: "code_unit \<Rightarrow> bool" where
  "isWhiteSpace c \<longleftrightarrow>
     c \<in> set [0x09, 0x0A, 0x0B, 0x0C, 0x0D, 0x20, 0xA0, 0x1680, 0x2028, 0x2029,
               0x202F, 0x205F, 0x3000, 0xFEFF]
     \<or> (0x2000 \<le> c \<and> c \<le> 0x200A)"

definition trim :: "jsstring \<Rightarrow> jsstring" where
  "trim s = rev (dropWhile isWhiteSpace (rev (dropWhile isWhiteSpace s)))"

definition startsWith :: "jsstring \<Rightarrow> jsstring \<Rightarrow> bool" where
  "startsWith s p \<longleftrightarrow> take (length p) s = p"

text \<open>
  \<open>text.substring(0, n)\<close> for an integral \<open>n\<close>: a negative end is clamped to 0 and
  an end beyond the string to its length.
\<close>

definition substring0 :: "jsstring \<Rightarrow> int \<Rightarrow> jsstring" where
  "substring0 s n = take (nat n) s"

text \<open>
  A value that is \<open>null\<close>/\<open>undefined\<close> or a string is a \<open>jsstring option\<close>; it is
  truthy when it is a non-empty string.
\<close>

definition truthy :: "jsstring option \<Rightarrow> bool" where
  "truthy v = (case v of None \<Rightarrow> False | Some s \<Rightarrow> s \<noteq> [])"

text \<open>
  The time value of a \<open>Date\<close>: milliseconds since the epoch, or \<open>None\<close> for an
  Invalid Date (NaN).  The parser behind \<open>new Date(string)\<close> belongs to the JavaScript
  engine and depends on the host's time zone; every function that calls it takes it as the
  parameter \<open>Date\<close>.  The reading of the clock, \<open>new Date()\<close>, is the parameter
  \<open>now\<close>.  \<open>d <= now\<close> compares the time values, and is false for NaN.
\<close>

type_synonym time_value = "int option"

definition date_le :: "time_value \<Rightarrow> int \<Rightarrow> bool" where
  "date_le d now = (case d of None \<Rightarrow> False | Some t \<Rightarrow> t \<le> now)"

text \<open>A parser that reads every string as the same instant, for concrete evaluations.\<close>

definition const_Date :: "int \<Rightarrow> jsstring \<Rightarrow> time_value" where
  "const_Date t s = Some t"


section \<open>api.js: the formatters\<close>

definition phone_char :: "code_unit \<Rightarrow> bool" where
  "phone_char c \<longleftrightarrow> isDigit c \<or> c = PLUS"

text \<open>
  \<open>formatPhone\<close>: \<open>if (!phone) return ''\<close>, then \<open>replace(/[^\d+]/g, '')\<close>, then
  a \<open>'+'\<close> is put in front unless the cleaned string starts with one.
\<close>

definition formatPhone :: "jsstring option \<Rightarrow> jsstring" where
  "formatPhone phone =
     (if \<not> truthy phone then []
      else let clean = filter phone_char (the phone)
           in if \<not> startsWith clean [PLUS] then PLUS # clean else clean)"

text \<open>\<open>truncateText(text, maxLength = 50)\<close>.\<close>

definition truncateText :: "jsstring option \<Rightarrow> int \<Rightarrow> jsstring" where
  "truncateText text maxLength =
     (if \<not> truthy text then []
      else if int (length (the text)) > maxLength
           then substring0 (the text) maxLength @ js ''...''
           else the text)"

definition truncateText_default :: "jsstring option \<Rightarrow> jsstring" where
  "truncateText_default text = truncateText text 50"

text \<open>A scheduled message as the API returns it.\<close>

record scheduled_message =
  msg_id :: int
  phone :: jsstring
  message :: jsstring
  send_time :: jsstring
  is_sent :: bool
  sent_at :: "jsstring option"
  error_message :: "jsstring option"

datatype status = Sent | Failed | Overdue | Pending

record message_status =
  status :: status
  label :: string
  color :: string

definition getMessageStatus ::
  "(jsstring \<Rightarrow> time_value) \<Rightarrow> int \<Rightarrow> 'a scheduled_message_scheme \<Rightarrow> message_status" where
  "getMessageStatus Date now m =
     (if is_sent m then
        \<lparr>status = Sent, label = ''Enviado'', color = ''text-green-600''\<rparr>
      else if truthy (error_message m) then
        \<lparr>status = Failed, label = ''Fallido'', color = ''text-red-600''\<rparr>
      else if date_le (Date (send_time m)) now then
        \<lparr>status = Overdue, label = ''Atrasado'', color = ''text-orange-600''\<rparr>
      else
        \<lparr>status = Pending, label = ''Pendiente'', color = ''text-blue-600''\<rparr>)"

text \<open>
  The derivation in the words of the specification: sent when the sent flag is present,
  failed when an error message is present and the sent flag is absent, otherwise pending,
  shown as overdue when the send time is strictly before now.
\<close>

definition specified_status :: "bool \<Rightarrow> bool \<Rightarrow> int \<Rightarrow> int \<Rightarrow> status" where
  "specified_status sent_flag has_error t now =
     (if sent_flag then Sent
      else if has_error then Failed
      else if t < now then Overdue
      else Pending)"

text \<open>
  The canonical form of a recipient in the words of the specification: a single leading
  \<open>+\<close>, digits only after it.  The words ask for no digit, so a bare \<open>+\<close> has
  this form.
\<close>

definition canonical :: "jsstring \<Rightarrow> bool" where
  "canonical s = (case s of [] \<Rightarrow> False | c # ds \<Rightarrow> c = PLUS \<and> list_all isDigit ds)"

text \<open>
  An input whose only \<open>+\<close>, if it has one, comes before all its digits: once the removed
  characters in front and one leading \<open>+\<close> are skipped, no \<open>+\<close> is left.
\<close>

definition plus_only_leading :: "jsstring \<Rightarrow> bool" where
  "plus_only_leading p =
     (case dropWhile (\<lambda>c. \<not> phone_char c) p of
        [] \<Rightarrow> True
      | c # cs \<Rightarrow> PLUS \<notin> set (if c = PLUS then cs else c # cs))"


section \<open>api.js: the response interceptor\<close>

record response =
  http_status :: int
  data_message :: "jsstring option"

record axios_error =
  error_response :: "response option"
  error_text :: "jsstring option"

datatype toast = ToastError jsstring | ToastSuccess jsstring

datatype 'a promise = Resolved 'a | Rejected axios_error

text \<open>
  \<open>error.response?.data?.message || error.message || 'Error desconocido'\<close>: the first
  truthy operand.
\<close>

definition interceptor_message :: "axios_error \<Rightarrow> jsstring" where
  "interceptor_message e =
     (let m1 = (case error_response e of None \<Rightarrow> None | Some r \<Rightarrow> data_message r)
      in if truthy m1 then the m1
         else if truthy (error_text e) then the (error_text e)
         else js ''Error desconocido'')"

text \<open>
  The rejection handler of the interceptor.  The toasts shown so far are the state; the
  handler returns them with the promise it settles.  \<open>error.response?.status !== 404\<close>
  is true when there is no response at all.
\<close>

definition interceptor_onRejected :: "axios_error \<Rightarrow> toast list \<Rightarrow> toast list \<times> 'a promise" where
  "interceptor_onRejected e toasts =
     (let msg = interceptor_message e;
          toasts' = (if map_option http_status (error_response e) \<noteq> Some 404
                     then toasts @ [ToastError msg] else toasts)
      in (toasts', Rejected e))"

definition interceptor_onFulfilled :: "'a \<Rightarrow> toast list \<Rightarrow> toast list \<times> 'a promise" where
  "interceptor_onFulfilled r toasts = (toasts, Resolved r)"


section \<open>Field validation of react-hook-form\<close>

text \<open>
  The forms register their fields with rules that the library react-hook-form checks
  before it calls \<open>onSubmit\<close>.  The library is not part of the repository; its documented
  behaviour on a text field is: \<open>required\<close> fails on the empty string; \<open>maxLength\<close>,
  \<open>minLength\<close> and \<open>pattern\<close> are checked on a non-empty string, in this order;
  \<open>validate\<close> comes last; the first failing rule gives the error of the field.
  \<open>handleSubmit\<close> calls \<open>onSubmit\<close> only when no field has an error.
\<close>

datatype error_type = Required | MaxLength | MinLength | Pattern | Validate

record rules =
  required :: bool
  maxLength :: "nat option"
  minLength :: "nat option"
  pattern :: "(jsstring \<Rightarrow> bool) option"
  validate :: "(jsstring \<Rightarrow> bool) option"

definition no_rules :: rules where
  "no_rules = \<lparr>required = False, maxLength = None, minLength = None,
                pattern = None, validate = None\<rparr>"

definition validateField :: "rules \<Rightarrow> jsstring \<Rightarrow> error_type option" where
  "validateField r v =
     (if required r \<and> v = [] then Some Required
      else if v \<noteq> [] \<and> (case maxLength r of None \<Rightarrow> False | Some n \<Rightarrow> length v > n)
           then Some MaxLength
      else if v \<noteq> [] \<and> (case minLength r of None \<Rightarrow> False | Some n \<Rightarrow> length v < n)
           then Some MinLength
      else if v \<noteq> [] \<and> (case pattern r of None \<Rightarrow> False | Some p \<Rightarrow> \<not> p v)
           then Some Pattern
      else case validate r of
             None \<Rightarrow> None
           | Some f \<Rightarrow> if f v then None else Some Validate)"

datatype field = PhoneField | MessageField | SendTimeField

text \<open>The errors of a form: the fields whose value fails its rules.\<close>

fun field_errors :: "(field \<times> rules \<times> jsstring) list \<Rightarrow> (field \<times> error_type) list" where
  "field_errors [] = []"
| "field_errors ((f, r, v) # fs) =
     (case validateField r v of
        None \<Rightarrow> field_errors fs
      | Some e \<Rightarrow> (f, e) # field_errors fs)"

text \<open>
  What a submission ends in: the form shows field errors and \<open>onSubmit\<close> is not called;
  or \<open>onSubmit\<close> shows an error toast and makes no request; or it sends a request to the
  API.
\<close>

datatype 'r outcome = FieldErrors "(field \<times> error_type) list" | Toasted string | ApiRequest 'r

text \<open>The values of a form and the bodies of the requests.\<close>

record direct_form =
  form_phone :: jsstring
  form_message :: jsstring

record schedule_form = direct_form +
  form_send_time :: jsstring

record send_now_request =
  req_phone :: jsstring
  req_message :: jsstring

text \<open>
  \<open>send_time\<close> of a request is \<open>new Date(data.send_time).toISOString()\<close>; the model
  keeps the instant the ISO string denotes.
\<close>

record schedule_request = send_now_request +
  req_send_time :: int

definition digits_between :: "nat \<Rightarrow> nat \<Rightarrow> jsstring \<Rightarrow> bool" where
  "digits_between lo hi s \<longleftrightarrow> lo \<le> length s \<and> length s \<le> hi \<and> list_all isDigit s"

text \<open>The optional leading \<open>\+?\<close> of the patterns below.\<close>

definition skip_plus :: "jsstring \<Rightarrow> jsstring" where
  "skip_plus s = (if startsWith s [PLUS] then tl s else s)"


section \<open>CreateMessage.jsx: the schedule form\<close>

text \<open>\<open>/^(\+?52)?[0-9]{10}$/\<close>\<close>

definition CreateMessage_phone_pattern :: "jsstring \<Rightarrow> bool" where
  "CreateMessage_phone_pattern s \<longleftrightarrow>
     digits_between 10 10 s
     \<or> (startsWith s (js ''52'') \<and> digits_between 10 10 (drop 2 s))
     \<or> (startsWith s (js ''+52'') \<and> digits_between 10 10 (drop 3 s))"

definition CreateMessage_phone_rules :: rules where
  "CreateMessage_phone_rules =
     no_rules\<lparr>required := True, pattern := Some CreateMessage_phone_pattern\<rparr>"

definition CreateMessage_message_rules :: rules where
  "CreateMessage_message_rules =
     no_rules\<lparr>required := True, maxLength := Some 4096, minLength := Some 1\<rparr>"

text \<open>
  The \<open>validate\<close> rule of \<open>send_time\<close> returns the error text when
  \<open>sendTime <= now\<close> and \<open>true\<close> otherwise.
\<close>

definition CreateMessage_send_time_validate ::
  "(jsstring \<Rightarrow> time_value) \<Rightarrow> int \<Rightarrow> jsstring \<Rightarrow> bool" where
  "CreateMessage_send_time_validate Date now v = (if date_le (Date v) now then False else True)"

definition CreateMessage_send_time_rules :: "(jsstring \<Rightarrow> time_value) \<Rightarrow> int \<Rightarrow> rules" where
  "CreateMessage_send_time_rules Date now =
     no_rules\<lparr>required := True, validate := Some (CreateMessage_send_time_validate Date now)\<rparr>"

text \<open>
  \<open>onSubmit\<close> builds the request first; \<open>toISOString\<close> throws a RangeError on an
  Invalid Date, which the \<open>catch\<close> turns into the toast of a failed creation.  Then the
  send time is compared with the clock, and only a later one reaches the API.
\<close>

definition CreateMessage_onSubmit ::
  "(jsstring \<Rightarrow> time_value) \<Rightarrow> int \<Rightarrow> schedule_form \<Rightarrow> schedule_request outcome" where
  "CreateMessage_onSubmit Date now data =
     (case Date (form_send_time data) of
        None \<Rightarrow> Toasted ''Error creando el mensaje''
      | Some t \<Rightarrow>
          let messageData = \<lparr>req_phone = formatPhone (Some (form_phone data)),
                             req_message = trim (form_message data),
                             req_send_time = t\<rparr>
          in if date_le (Date (form_send_time data)) now
             then Toasted ''La fecha y hora debe ser en el futuro''
             else ApiRequest messageData)"

text \<open>
  \<open>handleSubmit(onSubmit)\<close>: the clock is read once by the \<open>validate\<close> rule
  (\<open>now_v\<close>) and once more by \<open>onSubmit\<close> (\<open>now_s\<close>).
\<close>

definition CreateMessage_handleSubmit ::
  "(jsstring \<Rightarrow> time_value) \<Rightarrow> int \<Rightarrow> int \<Rightarrow> schedule_form \<Rightarrow> schedule_request outcome" where
  "CreateMessage_handleSubmit Date now_v now_s data =
     (let errors = field_errors
            [(PhoneField, CreateMessage_phone_rules, form_phone data),
             (MessageField, CreateMessage_message_rules, form_message data),
             (SendTimeField, CreateMessage_send_time_rules Date now_v, form_send_time data)]
      in if errors = [] then CreateMessage_onSubmit Date now_s data else FieldErrors errors)"


section \<open>MessageDetails.jsx: the edit form\<close>

text \<open>\<open>/^\+?\d{10,15}$/\<close>\<close>

definition MessageDetails_phone_pattern :: "jsstring \<Rightarrow> bool" where
  "MessageDetails_phone_pattern s \<longleftrightarrow> digits_between 10 15 (skip_plus s)"

definition MessageDetails_phone_rules :: rules where
  "MessageDetails_phone_rules =
     no_rules\<lparr>required := True, pattern := Some MessageDetails_phone_pattern\<rparr>"

definition MessageDetails_message_rules :: rules where
  "MessageDetails_message_rules = no_rules\<lparr>required := True, maxLength := Some 1000\<rparr>"

definition MessageDetails_send_time_rules :: rules where
  "MessageDetails_send_time_rules = no_rules\<lparr>required := True\<rparr>"

text \<open>The request of an edit carries the id of the message with the new values.\<close>

definition MessageDetails_onSubmit ::
  "(jsstring \<Rightarrow> time_value) \<Rightarrow> int \<Rightarrow> int \<Rightarrow> schedule_form \<Rightarrow> (int \<times> schedule_request) outcome" where
  "MessageDetails_onSubmit Date now messageId data =
     (case Date (form_send_time data) of
        None \<Rightarrow> Toasted ''Error actualizando el mensaje''
      | Some t \<Rightarrow>
          let updateData = \<lparr>req_phone = formatPhone (Some (form_phone data)),
                            req_message = trim (form_message data),
                            req_send_time = t\<rparr>
          in if date_le (Date (form_send_time data)) now
             then Toasted ''La fecha y hora debe ser en el futuro''
             else ApiRequest (messageId, updateData))"

definition MessageDetails_handleSubmit ::
  "(jsstring \<Rightarrow> time_value) \<Rightarrow> int \<Rightarrow> int \<Rightarrow> schedule_form \<Rightarrow> (int \<times> schedule_request) outcome" where
  "MessageDetails_handleSubmit Date now messageId data =
     (let errors = field_errors
            [(PhoneField, MessageDetails_phone_rules, form_phone data),
             (MessageField, MessageDetails_message_rules, form_message data),
             (SendTimeField, MessageDetails_send_time_rules, form_send_time data)]
      in if errors = [] then MessageDetails_onSubmit Date now messageId data
         else FieldErrors errors)"


section \<open>TestMessage.jsx: the direct send form\<close>

text \<open>\<open>/^\+?[1-9]\d{9,14}$/\<close>\<close>

definition TestMessage_phone_pattern :: "jsstring \<Rightarrow> bool" where
  "TestMessage_phone_pattern s \<longleftrightarrow>
     (case skip_plus s of
        [] \<Rightarrow> False
      | c # cs \<Rightarrow> 0x31 \<le> c \<and> c \<le> 0x39 \<and> digits_between 9 14 cs)"

definition TestMessage_phone_rules :: rules where
  "TestMessage_phone_rules =
     no_rules\<lparr>required := True, pattern := Some TestMessage_phone_pattern\<rparr>"

definition TestMessage_message_rules :: rules where
  "TestMessage_message_rules =
     no_rules\<lparr>required := True, maxLength := Some 4096, minLength := Some 1\<rparr>"

definition TestMessage_onSubmit :: "direct_form \<Rightarrow> send_now_request outcome" where
  "TestMessage_onSubmit data =
     ApiRequest \<lparr>req_phone = formatPhone (Some (form_phone data)),
                 req_message = trim (form_message data)\<rparr>"

definition TestMessage_handleSubmit :: "direct_form \<Rightarrow> send_now_request outcome" where
  "TestMessage_handleSubmit data =
     (let errors = field_errors
            [(PhoneField, TestMessage_phone_rules, form_phone data),
             (MessageField, TestMessage_message_rules, form_message data)]
      in if errors = [] then TestMessage_onSubmit data else FieldErrors errors)"


section \<open>MessageList.jsx: the actions of a row\<close>

datatype action = EditMessage int | DeleteMessage int

text \<open>
  The edit button is rendered under \<open>!message.is_sent\<close>, the delete button without a
  condition.
\<close>

definition MessageList_actions :: "'a scheduled_message_scheme \<Rightarrow> action list" where
  "MessageList_actions m =
     (if \<not> is_sent m then [EditMessage (msg_id m)] else []) @ [DeleteMessage (msg_id m)]"

text \<open>
  \<open>handleDeleteMessage\<close> asks for confirmation and then calls the API with the id; it
  does not look at the message.
\<close>

definition handleDeleteMessage :: "bool \<Rightarrow> int \<Rightarrow> int option" where
  "handleDeleteMessage confirmed messageId = (if \<not> confirmed then None else Some messageId)"


section \<open>Outcomes, the specification's words, and sample data\<close>

text \<open>Whether a submission reached the API.\<close>

definition is_request :: "'r outcome \<Rightarrow> bool" where
  "is_request out = (case out of ApiRequest r \<Rightarrow> True | _ \<Rightarrow> False)"

text \<open>The toast both forms show for a send time that is not in the future.\<close>

definition future_toast :: string where
  "future_toast = ''La fecha y hora debe ser en el futuro''"

text \<open>
  A body with its leading and trailing whitespace trimmed, in the words of the
  specification: \<open>r\<close> is \<open>b\<close> without a prefix and a suffix of whitespace, and
  \<open>r\<close> itself neither starts nor ends with whitespace.
\<close>

definition trimmed_from :: "jsstring \<Rightarrow> jsstring \<Rightarrow> bool" where
  "trimmed_from b r \<longleftrightarrow>
     (\<exists>pre suf. b = pre @ r @ suf \<and> list_all isWhiteSpace pre \<and> list_all isWhiteSpace suf)
     \<and> (r = [] \<or> (\<not> isWhiteSpace (hd r) \<and> \<not> isWhiteSpace (last r)))"

text \<open>A message that is neither sent nor failed, and the same message after a failure.\<close>

definition pending_message :: scheduled_message where
  "pending_message =
     \<lparr>msg_id = 7, phone = js ''+525512345678'', message = js ''hola'',
      send_time = js ''2030-01-01T10:00:00'', is_sent = False, sent_at = None,
      error_message = None\<rparr>"

definition failed_message :: scheduled_message where
  "failed_message = pending_message\<lparr>error_message := Some (js ''invalid number'')\<rparr>"

text \<open>Form values that pass the field rules of all three forms.\<close>

definition sample_form :: schedule_form where
  "sample_form =
     \<lparr>form_phone = js ''+525512345678'', form_message = js ''  hola '',
      form_send_time = js ''2030-01-01T10:00''\<rparr>"

definition sample_direct_form :: direct_form where
  "sample_direct_form = \<lparr>form_phone = js ''+525512345678'', form_message = js ''  hola ''\<rparr>"


section \<open>Properties of the formatters\<close>

lemma startsWith_single: "startsWith s [c] \<longleftrightarrow> s \<noteq> [] \<and> hd s = c"
  by (cases s) (auto simp: startsWith_def)

lemma phone_char_PLUS: "phone_char PLUS"
  by (simp add: phone_char_def)

lemma not_isDigit_PLUS: "\<not> isDigit PLUS"
  by (simp add: isDigit_def PLUS_def)

lemma filter_phone_char_dropWhile:
  "filter phone_char (dropWhile (\<lambda>c. \<not> phone_char c) p) = filter phone_char p"
  by (induction p) auto

lemma filter_isDigit_dropWhile:
  "filter isDigit (dropWhile (\<lambda>c. \<not> phone_char c) p) = filter isDigit p"
  by (induction p) (auto simp: phone_char_def)

lemma all_digits_filter_phone_char:
  "list_all isDigit (filter phone_char cs) \<longleftrightarrow> PLUS \<notin> set cs"
  by (induction cs) (auto simp: phone_char_def not_isDigit_PLUS)

lemma filter_phone_char_no_plus:
  "PLUS \<notin> set cs \<Longrightarrow> filter phone_char cs = filter isDigit cs"
  by (induction cs) (auto simp: phone_char_def)

text \<open>
  The result on a non-empty input, read off the first character that the regular
  expression keeps.
\<close>

lemma formatPhone_nonempty:
  assumes "p \<noteq> []" and "dropWhile (\<lambda>c. \<not> phone_char c) p = q"
  shows "formatPhone (Some p) =
     (case q of
        [] \<Rightarrow> [PLUS]
      | c # cs \<Rightarrow> if c = PLUS then PLUS # filter phone_char cs
                  else PLUS # c # filter phone_char cs)"
proof -
  have clean: "filter phone_char p = filter phone_char q"
    using assms(2) filter_phone_char_dropWhile by metis
  show ?thesis
  proof (cases q)
    case Nil
    with clean assms(1) show ?thesis
      by (simp add: formatPhone_def truthy_def startsWith_single)
  next
    case (Cons c cs)
    then have "phone_char c"
      using hd_dropWhile [of "\<lambda>c. \<not> phone_char c" p] assms(2) by force
    with Cons clean assms(1) show ?thesis
      by (simp add: formatPhone_def truthy_def startsWith_single)
  qed
qed

lemma plus_only_leading_eq:
  assumes "dropWhile (\<lambda>c. \<not> phone_char c) p = q"
  shows "plus_only_leading p =
     (case q of [] \<Rightarrow> True | c # cs \<Rightarrow> PLUS \<notin> set (if c = PLUS then cs else c # cs))"
  unfolding plus_only_leading_def assms ..

text \<open>
  C3, as stated, fails: \<open>formatPhone\<close> keeps every \<open>+\<close> of its input, so \<open>1+2\<close>
  becomes \<open>+1+2\<close>, which has a \<open>+\<close> among its digits; and the empty string stays
  empty, without a leading \<open>+\<close>.
\<close>

theorem formatPhone_not_always_canonical:
  "formatPhone (Some (js ''1+2'')) = js ''+1+2''
   \<and> \<not> canonical (formatPhone (Some (js ''1+2'')))
   \<and> \<not> canonical (formatPhone (Some []))"
  by (simp add: formatPhone_def truthy_def js_def phone_char_def isDigit_def PLUS_def
      startsWith_def canonical_def)

text \<open>
  The shape of the result on a string: empty for the empty string; otherwise a leading
  \<open>+\<close>, then only \<open>+\<close> and digits, the digits being those of the input.
\<close>

lemma formatPhone_shape:
  "(p = [] \<longrightarrow> formatPhone (Some p) = []) \<and>
   (p \<noteq> [] \<longrightarrow>
      hd (formatPhone (Some p)) = PLUS \<and>
      list_all phone_char (formatPhone (Some p)) \<and>
      filter isDigit (formatPhone (Some p)) = filter isDigit p \<and>
      (canonical (formatPhone (Some p)) \<longleftrightarrow> plus_only_leading p) \<and>
      (plus_only_leading p \<longrightarrow> formatPhone (Some p) = PLUS # filter isDigit p))"
proof (cases "p = []")
  case True
  then show ?thesis by (simp add: formatPhone_def truthy_def)
next
  case False
  obtain q where q: "dropWhile (\<lambda>c. \<not> phone_char c) p = q"
    by simp
  have dig: "filter isDigit p = filter isDigit q"
    using q filter_isDigit_dropWhile by metis
  note fp = formatPhone_nonempty [OF False q] and pl = plus_only_leading_eq [OF q]
  show ?thesis
  proof (cases q)
    case Nil
    with False dig show ?thesis
      by (simp add: fp pl canonical_def phone_char_PLUS not_isDigit_PLUS)
  next
    case (Cons c cs)
    then have pc: "phone_char c"
      using hd_dropWhile [of "\<lambda>c. \<not> phone_char c" p] q by force
    have all: "list_all phone_char (filter phone_char cs)"
      by (simp add: list_all_iff)
    have fd: "filter isDigit (filter phone_char cs) = filter isDigit cs"
      by (induction cs) (auto simp: phone_char_def)
    from False dig Cons pc all fd show ?thesis
      by (auto simp: fp pl canonical_def
          phone_char_PLUS not_isDigit_PLUS all_digits_filter_phone_char
          filter_phone_char_no_plus phone_char_def)
  qed
qed

text \<open>
  C3 (amended): \<open>formatPhone\<close> returns the empty string for \<open>null\<close> and for the
  empty string.  For every non-empty input the result starts with \<open>+\<close>, contains only
  \<open>+\<close> and ASCII digits, and keeps the digits of the input in their order.  It is in
  canonical form, a single leading \<open>+\<close> with digits only after it, where a bare
  \<open>+\<close> with no digit counts as canonical, exactly when the only \<open>+\<close> of the input,
  if any, comes before all its digits; then it is \<open>+\<close> followed by the digits of the
  input, which is the bare \<open>+\<close> for an input without digits.  It is \<open>+\<close> followed
  by at least one digit, and by digits only, exactly when in addition the input holds a
  digit.
\<close>

theorem formatPhone_canonical:
  "formatPhone None = [] \<and>
   (p = [] \<longrightarrow> formatPhone (Some p) = []) \<and>
   (p \<noteq> [] \<longrightarrow>
      hd (formatPhone (Some p)) = PLUS \<and>
      list_all phone_char (formatPhone (Some p)) \<and>
      filter isDigit (formatPhone (Some p)) = filter isDigit p \<and>
      (canonical (formatPhone (Some p)) \<longleftrightarrow> plus_only_leading p) \<and>
      (plus_only_leading p \<longrightarrow> formatPhone (Some p) = PLUS # filter isDigit p) \<and>
      (plus_only_leading p \<and> filter isDigit p = [] \<longrightarrow> formatPhone (Some p) = [PLUS]) \<and>
      (canonical (formatPhone (Some p)) \<and> tl (formatPhone (Some p)) \<noteq> [] \<longleftrightarrow>
         plus_only_leading p \<and> filter isDigit p \<noteq> []))"
proof -
  have none: "formatPhone None = []"
    by (simp add: formatPhone_def truthy_def)
  note shape = formatPhone_shape [of p]
  have bare: "plus_only_leading p \<and> filter isDigit p = [] \<longrightarrow> formatPhone (Some p) = [PLUS]"
    if "p \<noteq> []"
    using shape that by auto
  have digits: "canonical (formatPhone (Some p)) \<and> tl (formatPhone (Some p)) \<noteq> [] \<longleftrightarrow>
         plus_only_leading p \<and> filter isDigit p \<noteq> []"
    if "p \<noteq> []"
  proof (cases "plus_only_leading p")
    case True
    with shape that have eq: "formatPhone (Some p) = PLUS # filter isDigit p"
      and can: "canonical (formatPhone (Some p))"
      by blast+
    from eq have "tl (formatPhone (Some p)) = filter isDigit p"
      by simp
    with True can show ?thesis by simp
  next
    case False
    with shape that show ?thesis by blast
  qed
  from none shape bare digits show ?thesis
    by blast
qed

text \<open>
  The amended C3 at the placeholder of the form, \<open>+52 55 1234 5678\<close>, whose only
  \<open>+\<close> leads and which becomes \<open>+525512345678\<close>; and at \<open>abc\<close>, which has no
  digit and becomes the bare \<open>+\<close>.
\<close>

theorem formatPhone_canonical_witness:
  "js ''+52 55 1234 5678'' \<noteq> []
   \<and> plus_only_leading (js ''+52 55 1234 5678'')
   \<and> canonical (formatPhone (Some (js ''+52 55 1234 5678'')))
   \<and> formatPhone (Some (js ''+52 55 1234 5678'')) = js ''+525512345678''
   \<and> js ''abc'' \<noteq> []
   \<and> plus_only_leading (js ''abc'')
   \<and> filter isDigit (js ''abc'') = []
   \<and> formatPhone (Some (js ''abc'')) = js ''+''
   \<and> canonical (formatPhone (Some (js ''abc'')))"
proof -
  have ne: "js ''+52 55 1234 5678'' \<noteq> []" "js ''abc'' \<noteq> []"
    by (simp_all add: js_def)
  have pl: "plus_only_leading (js ''+52 55 1234 5678'')" "plus_only_leading (js ''abc'')"
    by (simp_all add: js_def plus_only_leading_def phone_char_def isDigit_def PLUS_def)
  have nd: "filter isDigit (js ''abc'') = []"
    by (simp add: js_def isDigit_def)
  from formatPhone_canonical [of "js ''+52 55 1234 5678''"] ne pl
  have a: "canonical (formatPhone (Some (js ''+52 55 1234 5678'')))"
    and b: "formatPhone (Some (js ''+52 55 1234 5678'')) = PLUS # filter isDigit (js ''+52 55 1234 5678'')"
    by blast+
  from formatPhone_canonical [of "js ''abc''"] ne pl nd
  have c: "canonical (formatPhone (Some (js ''abc'')))"
    and d: "formatPhone (Some (js ''abc'')) = [PLUS]"
    by blast+
  have e: "js ''+'' = [PLUS]"
    by (simp add: js_def PLUS_def)
  from a b c d show ?thesis
    using ne pl nd by (simp add: e) (simp add: js_def isDigit_def PLUS_def)
qed

text \<open>
  C9: \<open>formatPhone\<close> is idempotent: formatting a formatted recipient changes nothing,
  for every input (also \<open>null\<close> and the empty string).
\<close>

theorem formatPhone_idempotent: "formatPhone (Some (formatPhone p)) = formatPhone p"
  by (auto simp: formatPhone_def truthy_def Let_def startsWith_single phone_char_PLUS
      split: option.splits)

text \<open>
  C10: for a positive \<open>maxLength\<close>, \<open>truncateText\<close> returns the text unchanged when its
  length is at most \<open>maxLength\<close>, and otherwise its first \<open>maxLength\<close> characters
  followed by three dots, \<open>maxLength + 3\<close> characters in all; \<open>null\<close> and the empty
  string give the empty string.
\<close>

theorem truncateText_spec:
  "0 < n \<Longrightarrow>
     truncateText (Some t) n = (if int (length t) \<le> n then t else take (nat n) t @ js ''...'') \<and>
     (n < int (length t) \<longrightarrow> int (length (truncateText (Some t) n)) = n + 3) \<and>
     truncateText None n = [] \<and> truncateText (Some []) n = []"
  by (auto simp: truncateText_def truthy_def substring0_def js_def)

text \<open>C10 on a text of six characters cut at four.\<close>

theorem truncateText_spec_witness:
  "(0::int) < 4
   \<and> truncateText (Some (js ''abcdef'')) 4 = js ''abcd...''
   \<and> int (length (truncateText (Some (js ''abcdef'')) 4)) = 4 + 3"
  using truncateText_spec [of 4 "js ''abcdef''"]
  by (simp add: js_def)


section \<open>The derived status of a message\<close>

text \<open>
  C1, as stated, fails at the boundary: a message that is neither sent nor failed and
  whose send time equals the reading of the clock is shown as overdue, where the
  specification's \<open>send_time < now\<close> leaves it pending.
\<close>

theorem getMessageStatus_overdue_at_send_time:
  "const_Date 1000 (send_time pending_message) = Some 1000
   \<and> status (getMessageStatus (const_Date 1000) 1000 pending_message) = Overdue
   \<and> specified_status (is_sent pending_message) (truthy (error_message pending_message)) 1000 1000 = Pending"
  by (simp add: getMessageStatus_def const_Date_def pending_message_def date_le_def truthy_def
      specified_status_def)

text \<open>
  C1 (amended): the derived status is sent exactly when \<open>is_sent\<close> is set; failed
  exactly when \<open>error_message\<close> is a non-empty string and \<open>is_sent\<close> is not set;
  overdue exactly when neither holds and the send time is a valid date at or before now
  (\<open>send_time <= now\<close>); and pending in the remaining case.  The status is computed
  from the message and the clock alone.
\<close>

theorem getMessageStatus_derivation:
  "(status (getMessageStatus Date now m) = Sent \<longleftrightarrow> is_sent m) \<and>
   (status (getMessageStatus Date now m) = Failed \<longleftrightarrow> truthy (error_message m) \<and> \<not> is_sent m) \<and>
   (status (getMessageStatus Date now m) = Overdue \<longleftrightarrow>
      \<not> is_sent m \<and> \<not> truthy (error_message m) \<and> date_le (Date (send_time m)) now) \<and>
   (status (getMessageStatus Date now m) = Pending \<longleftrightarrow>
      \<not> is_sent m \<and> \<not> truthy (error_message m) \<and> \<not> date_le (Date (send_time m)) now) \<and>
   (date_le (Some t) now \<longleftrightarrow> t \<le> now) \<and> \<not> date_le None now"
  by (simp add: getMessageStatus_def date_le_def)

section \<open>The actions offered for a message\<close>

text \<open>
  C6, as stated, fails: a failed message (an error message, not sent) is offered the edit
  action in the list.
\<close>

theorem failed_message_offers_edit:
  "status (getMessageStatus (const_Date 2000) 1000 failed_message) = Failed
   \<and> EditMessage (msg_id failed_message) \<in> set (MessageList_actions failed_message)"
  by (simp add: getMessageStatus_def failed_message_def pending_message_def truthy_def js_def
      MessageList_actions_def)

text \<open>
  C6 (amended): the list offers the edit action exactly for the messages whose derived
  status is not sent (pending, overdue and failed ones), so a sent message cannot be edited
  from the list; it offers the delete action for every message regardless of status, and
  a confirmed delete issues the request for that message.
\<close>

theorem MessageList_actions_by_status:
  "(EditMessage (msg_id m) \<in> set (MessageList_actions m) \<longleftrightarrow>
      status (getMessageStatus Date now m) \<noteq> Sent) \<and>
   DeleteMessage (msg_id m) \<in> set (MessageList_actions m) \<and>
   handleDeleteMessage True (msg_id m) = Some (msg_id m)"
  by (simp add: MessageList_actions_def getMessageStatus_def handleDeleteMessage_def)

section \<open>The response interceptor\<close>

text \<open>
  C7: on every failed response the interceptor rejects the promise with the same error,
  and it adds an error toast exactly when the HTTP status is not 404 (also when there is
  no response at all); on a 404 the toasts are left as they were.
\<close>

theorem interceptor_rejects_and_notifies:
  "snd (interceptor_onRejected e ts) = Rejected e \<and>
   (fst (interceptor_onRejected e ts) = ts @ [ToastError (interceptor_message e)] \<longleftrightarrow>
      map_option http_status (error_response e) \<noteq> Some 404) \<and>
   (fst (interceptor_onRejected e ts) = ts \<longleftrightarrow>
      map_option http_status (error_response e) = Some 404)"
  by (simp add: interceptor_onRejected_def Let_def)

section \<open>The length of the body\<close>

text \<open>
  The schedule form accepts exactly the bodies of 1 to 4096 code units; the edit form
  accepts exactly those of 1 to 1000.
\<close>

lemma CreateMessage_message_accepted:
  "validateField CreateMessage_message_rules v = None \<longleftrightarrow> 1 \<le> length v \<and> length v \<le> 4096"
  by (cases v) (auto simp: validateField_def CreateMessage_message_rules_def no_rules_def)

lemma MessageDetails_message_accepted:
  "validateField MessageDetails_message_rules v = None \<longleftrightarrow> 1 \<le> length v \<and> length v \<le> 1000"
  by (cases v) (auto simp: validateField_def MessageDetails_message_rules_def no_rules_def)

text \<open>
  C4: both forms should accept every body of 1 to 4096 characters.  The schedule form
  does; the edit form rejects a body of 1001 characters with its \<open>maxLength\<close> rule of
  1000, so a message that was scheduled with such a body cannot be saved again.
\<close>

theorem edit_form_rejects_body_of_1001:
  "validateField CreateMessage_message_rules (replicate 1001 97) = None \<and>
   validateField MessageDetails_message_rules (replicate 1001 97) = Some MaxLength"
  by (simp add: validateField_def MessageDetails_message_rules_def
      CreateMessage_message_rules_def no_rules_def)

section \<open>The send time must be in the future\<close>

lemma date_le_Some: "date_le (Some t) now \<longleftrightarrow> t \<le> now"
  by (simp add: date_le_def)

lemma CreateMessage_onSubmit_Some:
  "Date (form_send_time d) = Some t \<Longrightarrow>
   CreateMessage_onSubmit Date now d =
     (if t \<le> now then Toasted future_toast
      else ApiRequest \<lparr>req_phone = formatPhone (Some (form_phone d)),
                        req_message = trim (form_message d), req_send_time = t\<rparr>)"
  by (simp add: CreateMessage_onSubmit_def date_le_def future_toast_def)

lemma MessageDetails_onSubmit_Some:
  "Date (form_send_time d) = Some t \<Longrightarrow>
   MessageDetails_onSubmit Date now i d =
     (if t \<le> now then Toasted future_toast
      else ApiRequest (i, \<lparr>req_phone = formatPhone (Some (form_phone d)),
                            req_message = trim (form_message d), req_send_time = t\<rparr>))"
  by (simp add: MessageDetails_onSubmit_def date_le_def future_toast_def)

lemma CreateMessage_send_time_field:
  "Date v = Some t \<Longrightarrow> v \<noteq> [] \<Longrightarrow>
   validateField (CreateMessage_send_time_rules Date now) v =
     (if t \<le> now then Some Validate else None)"
  by (simp add: validateField_def CreateMessage_send_time_rules_def no_rules_def
      CreateMessage_send_time_validate_def date_le_def)

lemma MessageDetails_send_time_field:
  "validateField MessageDetails_send_time_rules v = (if v = [] then Some Required else None)"
  by (simp add: validateField_def MessageDetails_send_time_rules_def no_rules_def)

lemma CreateMessage_handleSubmit_cases:
  "CreateMessage_handleSubmit Date now_v now_s d =
     (if validateField CreateMessage_phone_rules (form_phone d) = None
         \<and> validateField CreateMessage_message_rules (form_message d) = None
         \<and> validateField (CreateMessage_send_time_rules Date now_v) (form_send_time d) = None
      then CreateMessage_onSubmit Date now_s d
      else FieldErrors (field_errors
            [(PhoneField, CreateMessage_phone_rules, form_phone d),
             (MessageField, CreateMessage_message_rules, form_message d),
             (SendTimeField, CreateMessage_send_time_rules Date now_v, form_send_time d)]))"
  by (auto simp: CreateMessage_handleSubmit_def Let_def split: option.splits)

lemma MessageDetails_handleSubmit_cases:
  "MessageDetails_handleSubmit Date now i d =
     (if validateField MessageDetails_phone_rules (form_phone d) = None
         \<and> validateField MessageDetails_message_rules (form_message d) = None
         \<and> validateField MessageDetails_send_time_rules (form_send_time d) = None
      then MessageDetails_onSubmit Date now i d
      else FieldErrors (field_errors
            [(PhoneField, MessageDetails_phone_rules, form_phone d),
             (MessageField, MessageDetails_message_rules, form_message d),
             (SendTimeField, MessageDetails_send_time_rules, form_send_time d)]))"
  by (auto simp: MessageDetails_handleSubmit_def Let_def split: option.splits)

lemma TestMessage_handleSubmit_cases:
  "TestMessage_handleSubmit d =
     (if validateField TestMessage_phone_rules (form_phone d) = None
         \<and> validateField TestMessage_message_rules (form_message d) = None
      then TestMessage_onSubmit d
      else FieldErrors (field_errors
            [(PhoneField, TestMessage_phone_rules, form_phone d),
             (MessageField, TestMessage_message_rules, form_message d)]))"
  by (auto simp: TestMessage_handleSubmit_def Let_def split: option.splits)

text \<open>
  C5: for a send time that parses to the instant \<open>t\<close>: when \<open>t <= now\<close>, the
  schedule form and the edit form both show the error toast and send no request (the
  schedule form also reports the field as invalid), whatever the other fields hold; when
  \<open>now < t\<close>, the check passes in both forms, and with valid other fields the request is
  sent with the send time \<open>t\<close>.  The schedule form reads the clock twice, in the field
  rule (\<open>now_v\<close>) and in \<open>onSubmit\<close> (\<open>now\<close>).
\<close>

theorem send_time_must_be_future:
  assumes "Date (form_send_time d) = Some t"
  shows
   "(t \<le> now \<longrightarrow>
       CreateMessage_onSubmit Date now d = Toasted future_toast \<and>
       MessageDetails_onSubmit Date now i d = Toasted future_toast \<and>
       \<not> is_request (CreateMessage_handleSubmit Date now_v now d) \<and>
       \<not> is_request (MessageDetails_handleSubmit Date now i d) \<and>
       (form_send_time d \<noteq> [] \<longrightarrow>
          validateField (CreateMessage_send_time_rules Date now) (form_send_time d)
            = Some Validate)) \<and>
    (now < t \<longrightarrow>
       is_request (CreateMessage_onSubmit Date now d) \<and>
       is_request (MessageDetails_onSubmit Date now i d) \<and>
       (form_send_time d \<noteq> [] \<longrightarrow>
          validateField (CreateMessage_send_time_rules Date now) (form_send_time d) = None)) \<and>
    (now < t \<and> now_v < t \<and> form_send_time d \<noteq> [] \<and>
     validateField CreateMessage_phone_rules (form_phone d) = None \<and>
     validateField CreateMessage_message_rules (form_message d) = None \<longrightarrow>
       CreateMessage_handleSubmit Date now_v now d =
         ApiRequest \<lparr>req_phone = formatPhone (Some (form_phone d)),
                     req_message = trim (form_message d), req_send_time = t\<rparr>) \<and>
    (now < t \<and> form_send_time d \<noteq> [] \<and>
     validateField MessageDetails_phone_rules (form_phone d) = None \<and>
     validateField MessageDetails_message_rules (form_message d) = None \<longrightarrow>
       MessageDetails_handleSubmit Date now i d =
         ApiRequest (i, \<lparr>req_phone = formatPhone (Some (form_phone d)),
                         req_message = trim (form_message d), req_send_time = t\<rparr>))"
proof -
  note c = CreateMessage_onSubmit_Some [where Date = Date and d = d and t = t, OF assms]
    and m = MessageDetails_onSubmit_Some [where Date = Date and d = d and t = t, OF assms]
  have reject: "t \<le> now \<Longrightarrow> \<not> is_request (CreateMessage_handleSubmit Date now_v now d)"
    "t \<le> now \<Longrightarrow> \<not> is_request (MessageDetails_handleSubmit Date now i d)"
    by (simp_all add: CreateMessage_handleSubmit_cases MessageDetails_handleSubmit_cases c m
        is_request_def)
  have field: "form_send_time d \<noteq> [] \<Longrightarrow>
      validateField (CreateMessage_send_time_rules Date k) (form_send_time d) =
        (if t \<le> k then Some Validate else None)" for k
    using assms by (rule CreateMessage_send_time_field)
  have accept_create: "now < t \<Longrightarrow> now_v < t \<Longrightarrow> form_send_time d \<noteq> [] \<Longrightarrow>
     validateField CreateMessage_phone_rules (form_phone d) = None \<Longrightarrow>
     validateField CreateMessage_message_rules (form_message d) = None \<Longrightarrow>
       CreateMessage_handleSubmit Date now_v now d =
         ApiRequest \<lparr>req_phone = formatPhone (Some (form_phone d)),
                     req_message = trim (form_message d), req_send_time = t\<rparr>"
    by (simp add: CreateMessage_handleSubmit_cases c field)
  have accept_edit: "now < t \<Longrightarrow> form_send_time d \<noteq> [] \<Longrightarrow>
     validateField MessageDetails_phone_rules (form_phone d) = None \<Longrightarrow>
     validateField MessageDetails_message_rules (form_message d) = None \<Longrightarrow>
       MessageDetails_handleSubmit Date now i d =
         ApiRequest (i, \<lparr>req_phone = formatPhone (Some (form_phone d)),
                         req_message = trim (form_message d), req_send_time = t\<rparr>)"
    by (simp add: MessageDetails_handleSubmit_cases m MessageDetails_send_time_field)
  show ?thesis
    using reject accept_create accept_edit
    by (simp add: c m field is_request_def)
qed

section \<open>Evaluations at the sample form\<close>

lemma sample_phone_ok:
  "validateField CreateMessage_phone_rules (js ''+525512345678'') = None"
  "validateField MessageDetails_phone_rules (js ''+525512345678'') = None"
  "validateField TestMessage_phone_rules (js ''+525512345678'') = None"
  by (simp_all add: validateField_def CreateMessage_phone_rules_def MessageDetails_phone_rules_def
      TestMessage_phone_rules_def no_rules_def CreateMessage_phone_pattern_def
      MessageDetails_phone_pattern_def TestMessage_phone_pattern_def skip_plus_def
      digits_between_def startsWith_def js_def isDigit_def PLUS_def)

lemma sample_message_ok:
  "validateField CreateMessage_message_rules (js ''  hola '') = None"
  "validateField MessageDetails_message_rules (js ''  hola '') = None"
  "validateField TestMessage_message_rules (js ''  hola '') = None"
  by (simp_all add: validateField_def CreateMessage_message_rules_def MessageDetails_message_rules_def
      TestMessage_message_rules_def no_rules_def js_def)

lemma sample_send_time_ne: "js ''2030-01-01T10:00'' \<noteq> []"
  by (simp add: js_def)

lemma trim_sample: "trim (js ''  hola '') = js ''hola''"
  by (simp add: trim_def js_def isWhiteSpace_def)

lemma formatPhone_sample: "formatPhone (Some (js ''+525512345678'')) = js ''+525512345678''"
  by (simp add: formatPhone_def truthy_def js_def phone_char_def isDigit_def PLUS_def
      startsWith_def)

text \<open>
  C5 at the sample form, whose send time is read as the instant 2000: at the clock
  reading 2000 (the boundary) both forms refuse, at 1999 both send the request.
\<close>

theorem send_time_must_be_future_witness:
  "const_Date 2000 (form_send_time sample_form) = Some 2000
   \<and> (2000::int) \<le> 2000
   \<and> \<not> is_request (CreateMessage_handleSubmit (const_Date 2000) 2000 2000 sample_form)
   \<and> MessageDetails_onSubmit (const_Date 2000) 2000 7 sample_form = Toasted future_toast
   \<and> (1999::int) < 2000
   \<and> CreateMessage_handleSubmit (const_Date 2000) 1999 1999 sample_form =
       ApiRequest \<lparr>req_phone = js ''+525512345678'', req_message = js ''hola'',
                   req_send_time = 2000\<rparr>
   \<and> MessageDetails_handleSubmit (const_Date 2000) 1999 7 sample_form =
       ApiRequest (7, \<lparr>req_phone = js ''+525512345678'', req_message = js ''hola'',
                       req_send_time = 2000\<rparr>)"
proof -
  have d: "const_Date 2000 (form_send_time sample_form) = Some 2000"
    by (simp add: const_Date_def)
  have ne: "form_send_time sample_form \<noteq> []"
    by (simp add: sample_form_def js_def)
  have v: "form_phone sample_form = js ''+525512345678''" "form_message sample_form = js ''  hola ''"
    by (simp_all add: sample_form_def)
  show ?thesis
    using send_time_must_be_future [where Date = "const_Date 2000" and d = sample_form
          and t = 2000 and now = 2000 and i = 7 and now_v = 2000, OF d]
      send_time_must_be_future [where Date = "const_Date 2000" and d = sample_form
          and t = 2000 and now = 1999 and i = 7 and now_v = 1999, OF d] d ne
    by (simp add: v sample_phone_ok sample_message_ok trim_sample formatPhone_sample)
qed

section \<open>The body is trimmed before it is sent\<close>

lemma last_dropWhile_nonempty: "dropWhile P ys \<noteq> [] \<Longrightarrow> last (dropWhile P ys) = last ys"
  by (induction ys) auto

lemma trim_decomposition:
  "\<exists>pre suf. b = pre @ trim b @ suf \<and> list_all isWhiteSpace pre \<and> list_all isWhiteSpace suf"
proof -
  let ?u = "dropWhile isWhiteSpace b"
  let ?pre = "takeWhile isWhiteSpace b"
  let ?suf = "rev (takeWhile isWhiteSpace (rev ?u))"
  have "rev (rev ?u) = rev (takeWhile isWhiteSpace (rev ?u) @ dropWhile isWhiteSpace (rev ?u))"
    by (simp only: takeWhile_dropWhile_id)
  then have u: "?u = trim b @ ?suf"
    by (simp only: rev_rev_ident rev_append trim_def)
  have "b = ?pre @ ?u" by simp
  with u have "b = ?pre @ trim b @ ?suf" by simp
  moreover have "list_all isWhiteSpace ?pre"
    by (simp add: list_all_iff) (meson set_takeWhileD)
  moreover have "list_all isWhiteSpace ?suf"
    by (simp add: list_all_iff) (meson set_takeWhileD)
  ultimately show ?thesis by blast
qed

lemma trim_ends:
  assumes "trim b \<noteq> []"
  shows "\<not> isWhiteSpace (hd (trim b)) \<and> \<not> isWhiteSpace (last (trim b))"
proof -
  let ?u = "dropWhile isWhiteSpace b"
  let ?x = "dropWhile isWhiteSpace (rev ?u)"
  from assms have x: "?x \<noteq> []" by (simp add: trim_def)
  then have u: "?u \<noteq> []"
    by (metis dropWhile.simps(1) rev.simps(1))
  have "hd (trim b) = last ?x"
    using x by (simp add: trim_def hd_rev)
  also have "\<dots> = last (rev ?u)"
    using x by (rule last_dropWhile_nonempty)
  also have "\<dots> = hd ?u"
    using u by (simp add: last_rev)
  finally have "hd (trim b) = hd ?u" .
  moreover have "\<not> isWhiteSpace (hd ?u)"
    using u by (rule hd_dropWhile)
  moreover have "last (trim b) = hd ?x"
    using x by (simp add: trim_def last_rev)
  moreover have "\<not> isWhiteSpace (hd ?x)"
    using x by (rule hd_dropWhile)
  ultimately show ?thesis by simp
qed

lemma trimmed_from_trim: "trimmed_from b (trim b)"
  unfolding trimmed_from_def using trim_decomposition [of b] trim_ends [of b] by blast

lemma TestMessage_onSubmit_request:
  "TestMessage_onSubmit f =
     ApiRequest \<lparr>req_phone = formatPhone (Some (form_phone f)),
                 req_message = trim (form_message f)\<rparr>"
  by (simp add: TestMessage_onSubmit_def)

text \<open>
  C8: in each of the three submission paths, the schedule form, the edit form and the
  direct send form, the body sent to the API is the entered body with its leading and
  trailing whitespace trimmed.  Whenever a form sends a request, the body of the request
  is the trimmed body; and each path does send such a request: the direct send form
  always, the schedule form and the edit form whenever the send time is later than the
  clock, and through \<open>handleSubmit\<close> whenever the fields are valid as well.
\<close>

theorem submitted_body_is_trimmed:
  "(CreateMessage_handleSubmit Date now_v now d = ApiRequest r \<longrightarrow>
      req_message r = trim (form_message d) \<and> trimmed_from (form_message d) (req_message r)) \<and>
   (MessageDetails_handleSubmit Date now i d = ApiRequest (j, u) \<longrightarrow>
      req_message u = trim (form_message d) \<and> trimmed_from (form_message d) (req_message u)) \<and>
   (TestMessage_handleSubmit f = ApiRequest s \<longrightarrow>
      req_message s = trim (form_message f) \<and> trimmed_from (form_message f) (req_message s)) \<and>
   (Date (form_send_time d) = Some t \<and> now < t \<and> now_v < t \<and> form_send_time d \<noteq> [] \<and>
    validateField CreateMessage_phone_rules (form_phone d) = None \<and>
    validateField CreateMessage_message_rules (form_message d) = None \<longrightarrow>
      (\<exists>r'. CreateMessage_handleSubmit Date now_v now d = ApiRequest r' \<and>
            req_message r' = trim (form_message d))) \<and>
   (Date (form_send_time d) = Some t \<and> now < t \<and> form_send_time d \<noteq> [] \<and>
    validateField MessageDetails_phone_rules (form_phone d) = None \<and>
    validateField MessageDetails_message_rules (form_message d) = None \<longrightarrow>
      (\<exists>u'. MessageDetails_handleSubmit Date now i d = ApiRequest (i, u') \<and>
            req_message u' = trim (form_message d))) \<and>
   (validateField TestMessage_phone_rules (form_phone f) = None \<and>
    validateField TestMessage_message_rules (form_message f) = None \<longrightarrow>
      (\<exists>s'. TestMessage_handleSubmit f = ApiRequest s' \<and>
            req_message s' = trim (form_message f))) \<and>
   (Date (form_send_time d) = Some t \<and> now < t \<longrightarrow>
      (\<exists>r'. CreateMessage_onSubmit Date now d = ApiRequest r' \<and>
            req_message r' = trim (form_message d)) \<and>
      (\<exists>u'. MessageDetails_onSubmit Date now i d = ApiRequest (i, u') \<and>
            req_message u' = trim (form_message d))) \<and>
   (\<exists>s'. TestMessage_onSubmit f = ApiRequest s' \<and> req_message s' = trim (form_message f))"
proof (intro conjI impI)
  assume a: "CreateMessage_handleSubmit Date now_v now d = ApiRequest r"
  then have "CreateMessage_onSubmit Date now d = ApiRequest r"
    by (simp add: CreateMessage_handleSubmit_cases split: if_splits)
  then show "req_message r = trim (form_message d)"
    by (auto simp: CreateMessage_onSubmit_def Let_def split: option.splits if_splits)
  then show "trimmed_from (form_message d) (req_message r)"
    by (simp add: trimmed_from_trim)
next
  assume a: "MessageDetails_handleSubmit Date now i d = ApiRequest (j, u)"
  then have "MessageDetails_onSubmit Date now i d = ApiRequest (j, u)"
    by (simp add: MessageDetails_handleSubmit_cases split: if_splits)
  then show "req_message u = trim (form_message d)"
    by (auto simp: MessageDetails_onSubmit_def Let_def split: option.splits if_splits)
  then show "trimmed_from (form_message d) (req_message u)"
    by (simp add: trimmed_from_trim)
next
  assume a: "TestMessage_handleSubmit f = ApiRequest s"
  then have "TestMessage_onSubmit f = ApiRequest s"
    by (simp add: TestMessage_handleSubmit_cases split: if_splits)
  then show "req_message s = trim (form_message f)"
    by (auto simp: TestMessage_onSubmit_def)
  then show "trimmed_from (form_message f) (req_message s)"
    by (simp add: trimmed_from_trim)
next
  assume a: "Date (form_send_time d) = Some t \<and> now < t \<and> now_v < t \<and> form_send_time d \<noteq> [] \<and>
    validateField CreateMessage_phone_rules (form_phone d) = None \<and>
    validateField CreateMessage_message_rules (form_message d) = None"
  then have "validateField (CreateMessage_send_time_rules Date now_v) (form_send_time d) = None"
    by (simp add: CreateMessage_send_time_field [where t = t])
  with a show "\<exists>r'. CreateMessage_handleSubmit Date now_v now d = ApiRequest r' \<and>
            req_message r' = trim (form_message d)"
    by (simp add: CreateMessage_handleSubmit_cases CreateMessage_onSubmit_Some [where t = t])
next
  assume a: "Date (form_send_time d) = Some t \<and> now < t \<and> form_send_time d \<noteq> [] \<and>
    validateField MessageDetails_phone_rules (form_phone d) = None \<and>
    validateField MessageDetails_message_rules (form_message d) = None"
  then show "\<exists>u'. MessageDetails_handleSubmit Date now i d = ApiRequest (i, u') \<and>
            req_message u' = trim (form_message d)"
    by (simp add: MessageDetails_handleSubmit_cases MessageDetails_send_time_field
        MessageDetails_onSubmit_Some [where t = t])
next
  assume a: "validateField TestMessage_phone_rules (form_phone f) = None \<and>
    validateField TestMessage_message_rules (form_message f) = None"
  then show "\<exists>s'. TestMessage_handleSubmit f = ApiRequest s' \<and>
            req_message s' = trim (form_message f)"
    by (simp add: TestMessage_handleSubmit_cases TestMessage_onSubmit_request)
next
  assume a: "Date (form_send_time d) = Some t \<and> now < t"
  then show "\<exists>r'. CreateMessage_onSubmit Date now d = ApiRequest r' \<and>
            req_message r' = trim (form_message d)"
    by (simp add: CreateMessage_onSubmit_Some [where t = t])
  from a show "\<exists>u'. MessageDetails_onSubmit Date now i d = ApiRequest (i, u') \<and>
            req_message u' = trim (form_message d)"
    by (simp add: MessageDetails_onSubmit_Some [where t = t])
next
  show "\<exists>s'. TestMessage_onSubmit f = ApiRequest s' \<and> req_message s' = trim (form_message f)"
    by (simp add: TestMessage_onSubmit_request)
qed

text \<open>
  C8 at the sample forms: with valid fields and a send time after the clock, the
  schedule form, the edit form and the direct send form each send the entered body
  \<open>  hola \<close> as \<open>hola\<close>.
\<close>

theorem submitted_body_is_trimmed_witness:
  "const_Date 2000 (form_send_time sample_form) = Some 2000
   \<and> (1999::int) < 2000
   \<and> form_send_time sample_form \<noteq> []
   \<and> validateField CreateMessage_phone_rules (form_phone sample_form) = None
   \<and> validateField CreateMessage_message_rules (form_message sample_form) = None
   \<and> validateField MessageDetails_phone_rules (form_phone sample_form) = None
   \<and> validateField MessageDetails_message_rules (form_message sample_form) = None
   \<and> validateField TestMessage_phone_rules (form_phone sample_direct_form) = None
   \<and> validateField TestMessage_message_rules (form_message sample_direct_form) = None
   \<and> form_message sample_form = js ''  hola ''
   \<and> form_message sample_direct_form = js ''  hola ''
   \<and> CreateMessage_handleSubmit (const_Date 2000) 1999 1999 sample_form =
       ApiRequest \<lparr>req_phone = js ''+525512345678'', req_message = js ''hola'',
                   req_send_time = 2000\<rparr>
   \<and> MessageDetails_handleSubmit (const_Date 2000) 1999 7 sample_form =
       ApiRequest (7, \<lparr>req_phone = js ''+525512345678'', req_message = js ''hola'',
                       req_send_time = 2000\<rparr>)
   \<and> TestMessage_handleSubmit sample_direct_form =
       ApiRequest \<lparr>req_phone = js ''+525512345678'', req_message = js ''hola''\<rparr>
   \<and> trimmed_from (js ''  hola '') (js ''hola'')"
proof -
  let ?D = "const_Date 2000"
  let ?r = "\<lparr>req_phone = js ''+525512345678'', req_message = js ''hola'',
                req_send_time = 2000\<rparr>"
  let ?s = "\<lparr>req_phone = js ''+525512345678'', req_message = js ''hola''\<rparr>"
  note th = submitted_body_is_trimmed [where Date = ?D and now_v = 1999 and now = 1999
      and d = sample_form and t = 2000 and i = 7 and f = sample_direct_form
      and r = ?r and j = 7 and u = ?r and s = ?s]
  have d: "?D (form_send_time sample_form) = Some 2000"
    by (simp add: const_Date_def)
  have v: "form_phone sample_form = js ''+525512345678''"
    "form_message sample_form = js ''  hola ''"
    "form_send_time sample_form = js ''2030-01-01T10:00''"
    "form_phone sample_direct_form = js ''+525512345678''"
    "form_message sample_direct_form = js ''  hola ''"
    by (simp_all add: sample_form_def sample_direct_form_def)
  have ok: "validateField CreateMessage_phone_rules (form_phone sample_form) = None"
    "validateField CreateMessage_message_rules (form_message sample_form) = None"
    "validateField MessageDetails_phone_rules (form_phone sample_form) = None"
    "validateField MessageDetails_message_rules (form_message sample_form) = None"
    "validateField TestMessage_phone_rules (form_phone sample_direct_form) = None"
    "validateField TestMessage_message_rules (form_message sample_direct_form) = None"
    "form_send_time sample_form \<noteq> []"
    by (simp_all add: v sample_phone_ok sample_message_ok sample_send_time_ne)
  have ceq: "CreateMessage_handleSubmit ?D 1999 1999 sample_form = ApiRequest ?r"
    by (simp add: CreateMessage_handleSubmit_cases ok
        CreateMessage_send_time_field [where t = 2000] d
        CreateMessage_onSubmit_Some [where t = 2000])
      (simp add: v trim_sample formatPhone_sample)
  have meq: "MessageDetails_handleSubmit ?D 1999 7 sample_form = ApiRequest (7, ?r)"
    by (simp add: MessageDetails_handleSubmit_cases ok MessageDetails_send_time_field d
        MessageDetails_onSubmit_Some [where t = 2000])
      (simp add: v trim_sample formatPhone_sample)
  have teq: "TestMessage_handleSubmit sample_direct_form = ApiRequest ?s"
    by (simp add: TestMessage_handleSubmit_cases ok TestMessage_onSubmit_request)
      (simp add: v trim_sample formatPhone_sample)
  have "req_message ?r = trim (form_message sample_form)
        \<and> trimmed_from (form_message sample_form) (req_message ?r)"
    using th [THEN conjunct2, THEN conjunct1] meq
    by (rule mp)
  then have "trimmed_from (form_message sample_form) (req_message ?r)"
    by (rule conjunct2)
  then have tf: "trimmed_from (js ''  hola '') (js ''hola'')"
    by (simp add: v)
  from d ok v ceq meq teq tf show ?thesis
    by simp
qed

end
